theory Spec2Isabelle
  imports Main
begin

section \<open>Common types\<close>

text \<open>
  Mongo object ids are modelled as natural numbers, dates as integers (milliseconds since
  the epoch, what \<^verbatim>\<open>Date.now()\<close> returns), and JavaScript numbers that hold money
  amounts and counters as integers: the rounding of binary floating point is outside this
  development. The current time is an explicit argument \<open>now\<close> of every operation that
  reads the clock.
\<close>

type_synonym object_id = nat
type_synonym date = int

datatype error =
  Error string
| ValidationError string
| HttpError nat string

section \<open>The adoption document (models/Adoption)\<close>

datatype status =
  Submitted | UnderReview | Approved | Rejected | OnHold
| MeetScheduled | MeetCompleted | HomeVisitScheduled | HomeVisitCompleted
| AdoptionApproved | AdoptionCompleted | AdoptionReturned | Withdrawn

text \<open>The string each member of the schema's \<^verbatim>\<open>enum\<close> stands for.\<close>

fun status_name :: "status \<Rightarrow> string" where
  "status_name Submitted = ''submitted''"
| "status_name UnderReview = ''under-review''"
| "status_name Approved = ''approved''"
| "status_name Rejected = ''rejected''"
| "status_name OnHold = ''on-hold''"
| "status_name MeetScheduled = ''meet-scheduled''"
| "status_name MeetCompleted = ''meet-completed''"
| "status_name HomeVisitScheduled = ''home-visit-scheduled''"
| "status_name HomeVisitCompleted = ''home-visit-completed''"
| "status_name AdoptionApproved = ''adoption-approved''"
| "status_name AdoptionCompleted = ''adoption-completed''"
| "status_name AdoptionReturned = ''adoption-returned''"
| "status_name Withdrawn = ''withdrawn''"

datatype visit_type = MeetAndGreet | HomeVisit | FollowUp

datatype visit_status =
  VisitScheduled | VisitCompleted | VisitCancelled | VisitNoShow | VisitRescheduled

datatype outcome =
  OutcomeApproved | OutcomeRejected | OutcomeNeedsFollowUp | OutcomePending

datatype payment_status = PayPending | PayPartial | PayPaid | PayRefunded

record visit =
  visit_id :: object_id
  visit_type :: visit_type
  scheduledDate :: date
  visit_status :: visit_status
  visit_notes :: "string option"
  visit_outcome :: "outcome option"
  completedAt :: "date option"

record timeline_entry =
  entry_status :: status
  entry_date :: date
  entry_notes :: "string option"
  updatedBy :: "object_id option"

record fee =
  description :: string
  amount :: int

record fees =
  adoption :: int
  additional :: "fee list"
  fees_total :: int
  paid :: int
  paymentStatus :: payment_status
  paymentMethod :: "string option"
  transactionId :: "string option"

record internal_note =
  author :: "object_id option"
  content :: string
  createdAt :: date
  isPrivate :: bool

text \<open>
  The document as a method sees it. \<open>status_modified\<close> is the change tracking that
  mongoose keeps for the path \<^verbatim>\<open>status\<close> and that \<^verbatim>\<open>this.isModified('status')\<close>
  reads: an assignment marks the path when the assigned value differs from the current
  one, and a save clears the mark. The applicant-supplied parts (personalInfo,
  housingInfo, references, documents, contract, followUp, returnInfo) are not read or
  written by any method below and are left out. A document that is loaded from the store
  has an application id and a stored total, so the id generation of the save hook does
  not run on it.
\<close>

record adoption_doc =
  application_id :: string
  applicant :: object_id
  pet :: object_id
  shelter :: object_id
  status :: status
  visits :: "visit list"
  timeline :: "timeline_entry list"
  fees :: fees
  internalNotes :: "internal_note list"
  status_modified :: bool

subsection \<open>The save hook\<close>

definition set_status :: "status \<Rightarrow> adoption_doc \<Rightarrow> adoption_doc" where
  "set_status s d = d\<lparr>status := s, status_modified := (status_modified d \<or> s \<noteq> status d)\<rparr>"

definition computed_total :: "fees \<Rightarrow> int" where
  "computed_total f = adoption f + foldl (\<lambda>sum fee. sum + amount fee) 0 (additional f)"

definition update_payment_status :: "fees \<Rightarrow> fees" where
  "update_payment_status f =
     (if fees_total f \<le> paid f then f\<lparr>paymentStatus := PayPaid\<rparr>
      else if 0 < paid f then f\<lparr>paymentStatus := PayPartial\<rparr>
      else f)"

definition pre_save :: "date \<Rightarrow> adoption_doc \<Rightarrow> adoption_doc" where
  "pre_save now d =
     (let f = update_payment_status ((fees d)\<lparr>fees_total := computed_total (fees d)\<rparr>);
          tl = (if status_modified d
                then timeline d @ [\<lparr>entry_status = status d, entry_date = now,
                                     entry_notes = None, updatedBy = None\<rparr>]
                else timeline d)
      in d\<lparr>fees := f, timeline := tl\<rparr>)"

definition save :: "date \<Rightarrow> adoption_doc \<Rightarrow> adoption_doc" where
  "save now d = (pre_save now d)\<lparr>status_modified := False\<rparr>"

subsection \<open>Instance methods\<close>

definition updateStatus ::
  "status \<Rightarrow> string \<Rightarrow> object_id option \<Rightarrow> date \<Rightarrow> adoption_doc \<Rightarrow> adoption_doc" where
  "updateStatus newStatus notes actor now d =
     (let d1 = set_status newStatus d;
          d2 = d1\<lparr>timeline := timeline d1 @
                  [\<lparr>entry_status = newStatus, entry_date = now,
                    entry_notes = Some notes, updatedBy = actor\<rparr>]\<rparr>
      in save now d2)"

definition scheduleVisit :: "visit \<Rightarrow> date \<Rightarrow> adoption_doc \<Rightarrow> adoption_doc" where
  "scheduleVisit visitData now d =
     save now (d\<lparr>visits := visits d @ [visitData\<lparr>visit_status := VisitScheduled\<rparr>]\<rparr>)"

text \<open>
  \<^verbatim>\<open>this.visits.id(visitId)\<close> gives the first visit with that id, and the method then
  assigns to that visit in place: \<open>update_first\<close> rewrites the first element that
  satisfies the predicate and leaves the list alone when there is none.
\<close>

fun update_first :: "('a \<Rightarrow> bool) \<Rightarrow> ('a \<Rightarrow> 'a) \<Rightarrow> 'a list \<Rightarrow> 'a list" where
  "update_first P f [] = []"
| "update_first P f (x # xs) = (if P x then f x # xs else x # update_first P f xs)"

definition completeVisit ::
  "object_id \<Rightarrow> outcome \<Rightarrow> string option \<Rightarrow> date \<Rightarrow> adoption_doc \<Rightarrow> error + adoption_doc" where
  "completeVisit visitId oc notes now d =
     (case find (\<lambda>v. visit_id v = visitId) (visits d) of
        Some v \<Rightarrow>
          (let d1 = d\<lparr>visits := update_first (\<lambda>v. visit_id v = visitId)
                         (\<lambda>v. v\<lparr>visit_status := VisitCompleted, visit_outcome := Some oc,
                                visit_notes := notes, completedAt := Some now\<rparr>) (visits d)\<rparr>;
               d2 = (if visit_type v = MeetAndGreet \<and> oc = OutcomeApproved
                     then set_status MeetCompleted d1
                     else if visit_type v = HomeVisit \<and> oc = OutcomeApproved
                     then set_status HomeVisitCompleted d1
                     else d1)
           in Inr (save now d2))
      | None \<Rightarrow> Inl (Error ''Visit not found''))"

definition addNote :: "string \<Rightarrow> object_id option \<Rightarrow> bool \<Rightarrow> date \<Rightarrow> adoption_doc \<Rightarrow> adoption_doc" where
  "addNote c a private now d =
     save now (d\<lparr>internalNotes := internalNotes d @
                  [\<lparr>author = a, content = c, createdAt = now, isPrivate = private\<rparr>]\<rparr>)"

definition processPayment ::
  "int \<Rightarrow> string \<Rightarrow> string \<Rightarrow> date \<Rightarrow> adoption_doc \<Rightarrow> adoption_doc" where
  "processPayment amt method txn now d =
     (let f1 = (fees d)\<lparr>paid := paid (fees d) + amt, paymentMethod := Some method,
                        transactionId := Some txn\<rparr>;
          d2 = (if fees_total f1 \<le> paid f1
                then (let d1 = d\<lparr>fees := f1\<lparr>paymentStatus := PayPaid\<rparr>\<rparr>
                      in if status d1 = AdoptionApproved
                         then set_status AdoptionCompleted d1 else d1)
                else d\<lparr>fees := f1\<lparr>paymentStatus := PayPartial\<rparr>\<rparr>)
      in save now d2)"

text \<open>The virtual \<^verbatim>\<open>isActive\<close>.\<close>

definition activeStatuses :: "string list" where
  "activeStatuses = [''submitted'', ''under-review'', ''approved'', ''meet-scheduled'',
     ''meet-completed'', ''home-visit-scheduled'', ''home-visit-completed'',
     ''adoption-approved'']"

definition isActive :: "adoption_doc \<Rightarrow> bool" where
  "isActive d = (status_name (status d) \<in> set activeStatuses)"

section \<open>The activity document (models/Activity)\<close>

datatype participant_status = Registered | Attended | NoShow | Cancelled | Waitlisted

record participant =
  user :: object_id
  registeredAt :: date
  participant_status :: participant_status

text \<open>The field \<^verbatim>\<open>capacity.max\<close> is called \<open>max_capacity\<close> here.\<close>

record capacity =
  max_capacity :: int
  current :: int
  waitlist :: int

record activity_doc =
  date_start :: date
  date_end :: date
  capacity :: capacity
  registration_required :: bool
  registration_deadline :: "date option"
  participants :: "participant list"

text \<open>
  A save first runs the validators that the schema declares on the capacity counters
  (\<^verbatim>\<open>max\<close> at least 1, \<^verbatim>\<open>current\<close> and \<^verbatim>\<open>waitlist\<close> not negative) and then the
  \<^verbatim>\<open>pre('save')\<close> hook; each of them can reject the save.
\<close>

definition capacity_valid :: "capacity \<Rightarrow> bool" where
  "capacity_valid c = (1 \<le> max_capacity c \<and> 0 \<le> current c \<and> 0 \<le> waitlist c)"

definition activity_pre_save :: "activity_doc \<Rightarrow> error + activity_doc" where
  "activity_pre_save a =
     (if date_end a \<le> date_start a
      then Inl (Error ''End date must be after start date'')
      else if max_capacity (capacity a) < current (capacity a)
      then Inl (Error ''Current registrations cannot exceed maximum capacity'')
      else if registration_required a \<and> registration_deadline a = None
      then Inr (a\<lparr>registration_deadline := Some (date_start a - 24 * 60 * 60 * 1000)\<rparr>)
      else Inr a)"

definition activity_save :: "activity_doc \<Rightarrow> error + activity_doc" where
  "activity_save a =
     (if capacity_valid (capacity a) then activity_pre_save a
      else Inl (ValidationError ''Activity validation failed''))"

definition addParticipant ::
  "object_id \<Rightarrow> participant_status \<Rightarrow> date \<Rightarrow> activity_doc \<Rightarrow> error + activity_doc" where
  "addParticipant userId st now a =
     (let c = capacity a;
          st' = (if max_capacity c \<le> current c \<and> st = Registered then Waitlisted else st);
          c' = (if max_capacity c \<le> current c \<and> st = Registered
                then c\<lparr>waitlist := waitlist c + 1\<rparr>
                else if st = Registered then c\<lparr>current := current c + 1\<rparr>
                else c)
      in activity_save (a\<lparr>capacity := c',
           participants := participants a @
             [\<lparr>user = userId, registeredAt = now, participant_status = st'\<rparr>]\<rparr>))"

text \<open>
  \<^verbatim>\<open>removeParticipant\<close> returns \<^verbatim>\<open>false\<close> (here \<open>Inr None\<close>) when the user has no
  entry, and otherwise the result of the save. Its block that moves someone from the
  waiting list is \<open>promote_waitlisted\<close>: the first waitlisted participant of the array is
  assigned the status registered in place.
\<close>

definition promote_waitlisted :: "activity_doc \<Rightarrow> activity_doc" where
  "promote_waitlisted a =
     (case find (\<lambda>p. participant_status p = Waitlisted) (participants a) of
        Some waitlisted \<Rightarrow>
          a\<lparr>participants := update_first (\<lambda>p. participant_status p = Waitlisted)
                 (\<lambda>p. p\<lparr>participant_status := Registered\<rparr>) (participants a),
            capacity := (capacity a)\<lparr>current := current (capacity a) + 1,
                                     waitlist := waitlist (capacity a) - 1\<rparr>\<rparr>
      | None \<Rightarrow> a)"

text \<open>
  \<^verbatim>\<open>participants.pull({ user: userId })\<close> takes out of the array the entries that are
  equal to its argument as subdocuments, and mongoose compares subdocuments by their
  \<^verbatim>\<open>_id\<close>. The argument is built from a user alone and has the \<^verbatim>\<open>_id\<close> of no entry, so
  no entry is equal to it: the array keeps every entry, the one of the user included.
\<close>

definition pull :: "object_id \<Rightarrow> participant list \<Rightarrow> participant list" where
  "pull userId ps = ps"

definition removeParticipant :: "object_id \<Rightarrow> activity_doc \<Rightarrow> error + activity_doc option" where
  "removeParticipant userId a =
     (case find (\<lambda>p. user p = userId) (participants a) of
        None \<Rightarrow> Inr None
      | Some participant \<Rightarrow>
          (let a1 = (if participant_status participant = Registered
                     then promote_waitlisted
                            (a\<lparr>capacity := (capacity a)\<lparr>current := current (capacity a) - 1\<rparr>\<rparr>)
                     else if participant_status participant = Waitlisted
                     then a\<lparr>capacity := (capacity a)\<lparr>waitlist := waitlist (capacity a) - 1\<rparr>\<rparr>
                     else a);
               a2 = a1\<lparr>participants := pull userId (participants a1)\<rparr>
           in case activity_save a2 of Inl e \<Rightarrow> Inl e | Inr a' \<Rightarrow> Inr (Some a')))"

text \<open>The number of participants with a given status, as \<^verbatim>\<open>getParticipantStats\<close> counts.\<close>

definition count_status :: "participant_status \<Rightarrow> activity_doc \<Rightarrow> int" where
  "count_status st a = int (length (filter (\<lambda>p. participant_status p = st) (participants a)))"

section \<open>The request handler POST /api/adoptions (routes/adoptions)\<close>

datatype pet_status = Available | PetPending | Adopted | NotAvailable | Hold

record pet_doc =
  pet_id :: object_id
  pet_adoption_status :: pet_status
  pet_shelter :: object_id

text \<open>
  The handler addresses an adoption document by paths. A stored document keeps its
  references under \<^verbatim>\<open>application\<close>; \<open>stored_path\<close> reads a reference by the name of
  its path and finds nothing under any other name.
\<close>

definition stored_path :: "string \<Rightarrow> adoption_doc \<Rightarrow> object_id option" where
  "stored_path name d =
     (if name = ''application.applicant'' then Some (applicant d)
      else if name = ''application.pet'' then Some (pet d)
      else if name = ''application.shelter'' then Some (shelter d)
      else None)"

text \<open>
  The object the handler gives to \<^verbatim>\<open>Adoption.create\<close>. None of its four paths is a path
  of the schema, which is strict, so none of them reaches the new document; every path the
  schema requires (\<^verbatim>\<open>application.applicant\<close>, \<^verbatim>\<open>application.pet\<close>,
  \<^verbatim>\<open>application.shelter\<close>, \<^verbatim>\<open>personalInfo.motivation\<close>, \<^verbatim>\<open>housingInfo.type\<close>,
  \<^verbatim>\<open>fees.adoption\<close> and others) is missing from it, and the validation that precedes the
  save rejects it, whatever the payload holds. The string of the error is the head of the
  message that mongoose gives.
\<close>

record 'details adoption_payload =
  payload_pet :: object_id
  payload_adopter :: object_id
  payload_shelter :: object_id
  adoptionDetails :: 'details

definition Adoption_create :: "'details adoption_payload \<Rightarrow> error + adoption_doc" where
  "Adoption_create payload = Inl (ValidationError ''Adoption validation failed'')"

text \<open>
  The handler looks the pet up, asks the store for a request whose paths \<^verbatim>\<open>pet\<close> and
  \<^verbatim>\<open>adopter\<close> hold the pet and the user and whose status is among
  \<^verbatim>\<open>['pending', 'approved']\<close>, and otherwise hands the new request to
  \<^verbatim>\<open>Adoption.create\<close>; an error of \<^verbatim>\<open>Adoption.create\<close> goes to \<^verbatim>\<open>next\<close>. The result
  holds the created document and the store with that document added.
\<close>

definition post_adoptions ::
  "pet_doc list \<Rightarrow> adoption_doc list \<Rightarrow> object_id \<Rightarrow> object_id \<Rightarrow> 'details \<Rightarrow>
   error + adoption_doc \<times> adoption_doc list" where
  "post_adoptions pets adoptions userId petId details =
     (case find (\<lambda>p. pet_id p = petId) pets of
        None \<Rightarrow> Inl (HttpError 404 ''Pet not found'')
      | Some p \<Rightarrow>
          if pet_adoption_status p \<noteq> Available
          then Inl (HttpError 400 ''This pet is not available for adoption'')
          else (case find (\<lambda>a. stored_path ''pet'' a = Some (pet_id p) \<and>
                              stored_path ''adopter'' a = Some userId \<and>
                              status_name (status a) \<in> set [''pending'', ''approved''])
                       adoptions of
                  Some existingRequest \<Rightarrow>
                    Inl (HttpError 400
                      ''You have already submitted an adoption request for this pet'')
                | None \<Rightarrow>
                    (case Adoption_create \<lparr>payload_pet = pet_id p, payload_adopter = userId,
                            payload_shelter = pet_shelter p, adoptionDetails = details\<rparr> of
                       Inl e \<Rightarrow> Inl e
                     | Inr a \<Rightarrow> Inr (a, adoptions @ [a]))))"

section \<open>Example documents\<close>

text \<open>
  A submitted application for pet 1 by user 7, with a fee of 200, one meet-and-greet
  visit and one home visit scheduled, and the single timeline entry of its submission.
\<close>

definition example_fees :: fees where
  "example_fees = \<lparr>adoption = 200, additional = [], fees_total = 200, paid = 0,
     paymentStatus = PayPending, paymentMethod = None, transactionId = None\<rparr>"

definition example_visits :: "visit list" where
  "example_visits =
     [\<lparr>visit_id = 10, visit_type = MeetAndGreet, scheduledDate = 100,
       visit_status = VisitScheduled, visit_notes = None, visit_outcome = None,
       completedAt = None\<rparr>,
      \<lparr>visit_id = 11, visit_type = HomeVisit, scheduledDate = 200,
       visit_status = VisitScheduled, visit_notes = None, visit_outcome = None,
       completedAt = None\<rparr>]"

definition example_application :: adoption_doc where
  "example_application =
     \<lparr>application_id = ''APP1'', applicant = 7, pet = 1, shelter = 2, status = Submitted,
      visits = example_visits,
      timeline = [\<lparr>entry_status = Submitted, entry_date = 0, entry_notes = None,
                   updatedBy = None\<rparr>],
      fees = example_fees, internalNotes = [], status_modified = False\<rparr>"

text \<open>The pet of that application, available for adoption.\<close>

definition example_pet :: pet_doc where
  "example_pet = \<lparr>pet_id = 1, pet_adoption_status = Available, pet_shelter = 2\<rparr>"

text \<open>
  Scenario C of the specification: an activity with one place, then with user 1
  registered, then with user 2 on the waiting list behind user 1, and at last what
  \<^verbatim>\<open>removeParticipant\<close> leaves when user 1 unregisters.
\<close>

definition example_activity :: activity_doc where
  "example_activity =
     \<lparr>date_start = 1000, date_end = 2000,
      capacity = \<lparr>max_capacity = 1, current = 0, waitlist = 0\<rparr>,
      registration_required = False, registration_deadline = None, participants = []\<rparr>"

definition example_activity_A :: activity_doc where
  "example_activity_A = example_activity
     \<lparr>capacity := \<lparr>max_capacity = 1, current = 1, waitlist = 0\<rparr>,
      participants := [\<lparr>user = 1, registeredAt = 10, participant_status = Registered\<rparr>]\<rparr>"

definition example_activity_AB :: activity_doc where
  "example_activity_AB = example_activity
     \<lparr>capacity := \<lparr>max_capacity = 1, current = 1, waitlist = 1\<rparr>,
      participants := [\<lparr>user = 1, registeredAt = 10, participant_status = Registered\<rparr>,
                       \<lparr>user = 2, registeredAt = 20, participant_status = Waitlisted\<rparr>]\<rparr>"

definition example_activity_left :: activity_doc where
  "example_activity_left = example_activity
     \<lparr>capacity := \<lparr>max_capacity = 1, current = 1, waitlist = 0\<rparr>,
      participants := [\<lparr>user = 1, registeredAt = 10, participant_status = Registered\<rparr>,
                       \<lparr>user = 2, registeredAt = 20, participant_status = Registered\<rparr>]\<rparr>"

text \<open>
  An activity whose waiting list is not in the order of the registration dates: user 2
  stands before user 3 in the array but registered later.
\<close>

definition example_activity_unordered :: activity_doc where
  "example_activity_unordered = example_activity
     \<lparr>capacity := \<lparr>max_capacity = 1, current = 1, waitlist = 2\<rparr>,
      participants := [\<lparr>user = 1, registeredAt = 10, participant_status = Registered\<rparr>,
                       \<lparr>user = 2, registeredAt = 50, participant_status = Waitlisted\<rparr>,
                       \<lparr>user = 3, registeredAt = 30, participant_status = Waitlisted\<rparr>]\<rparr>"

section \<open>Properties of the adoption document\<close>

subsection \<open>What a save does\<close>

lemma foldl_amount: "foldl (\<lambda>sum fee. sum + amount fee) a xs = a + sum_list (map amount xs)"
  by (induction xs arbitrary: a) simp_all

lemma computed_total_sum: "computed_total f = adoption f + sum_list (map amount (additional f))"
  by (simp add: computed_total_def foldl_amount)

lemma fees_save:
  "fees (save now d) = update_payment_status ((fees d)\<lparr>fees_total := computed_total (fees d)\<rparr>)"
  by (simp add: save_def pre_save_def Let_def)

lemma update_payment_status_fields:
  "fees_total (update_payment_status f) = fees_total f"
  "adoption (update_payment_status f) = adoption f"
  "additional (update_payment_status f) = additional f"
  "paid (update_payment_status f) = paid f"
  by (simp_all add: update_payment_status_def)

lemma save_fields:
  "status (save now d) = status d"
  "visits (save now d) = visits d"
  "internalNotes (save now d) = internalNotes d"
  "status_modified (save now d) = False"
  "timeline (save now d) =
     timeline d @ (if status_modified d
                   then [\<lparr>entry_status = status d, entry_date = now, entry_notes = None,
                          updatedBy = None\<rparr>]
                   else [])"
  by (simp_all add: save_def pre_save_def Let_def)

lemma save_total:
  "fees_total (fees (save now d)) = computed_total (fees d)"
  "adoption (fees (save now d)) = adoption (fees d)"
  "additional (fees (save now d)) = additional (fees d)"
  "paid (fees (save now d)) = paid (fees d)"
  by (simp_all add: fees_save update_payment_status_fields)

lemma save_total_ok:
  "fees_total (fees (save now d)) =
     adoption (fees (save now d)) + sum_list (map amount (additional (fees (save now d))))"
  by (simp add: save_total computed_total_sum)

lemma find_update_first:
  "find P xs = Some v \<Longrightarrow> P (f v) \<Longrightarrow> find P (update_first P f xs) = Some (f v)"
  by (induction xs) (auto split: if_splits)

lemma length_update_first: "length (update_first P f xs) = length xs"
  by (induction xs) auto

subsection \<open>Status updates\<close>

text \<open>
  Claim C1, as the code has it. \<^verbatim>\<open>updateStatus\<close> holds no transition graph and cannot
  fail: whatever the current status and whatever status is requested, the application
  ends in the requested status, and the entry with the requested status, the notes and
  the acting user follows the entries the timeline had before.
\<close>

theorem updateStatus_applies_any_status:
  "status (updateStatus newStatus notes actor now d) = newStatus \<and>
   take (length (timeline d) + 1) (timeline (updateStatus newStatus notes actor now d)) =
     timeline d @ [\<lparr>entry_status = newStatus, entry_date = now, entry_notes = Some notes,
                    updatedBy = actor\<rparr>]"
  by (simp add: updateStatus_def Let_def save_fields set_status_def)

theorem updateStatus_applies_any_status_witness:
  "status (updateStatus Withdrawn ''changed my mind'' (Some 7) 5 example_application) = Withdrawn \<and>
   take (length (timeline example_application) + 1)
     (timeline (updateStatus Withdrawn ''changed my mind'' (Some 7) 5 example_application)) =
     timeline example_application @
       [\<lparr>entry_status = Withdrawn, entry_date = 5, entry_notes = Some ''changed my mind'',
         updatedBy = Some 7\<rparr>]"
  by (rule updateStatus_applies_any_status)

text \<open>
  A submitted application moved straight to adoption-completed: the status changes and
  the timeline grows.
\<close>

theorem updateStatus_unreachable_counterexample:
  "status (updateStatus AdoptionCompleted [] None 5 example_application) = AdoptionCompleted \<and>
   status example_application = Submitted \<and>
   timeline (updateStatus AdoptionCompleted [] None 5 example_application) \<noteq>
     timeline example_application"
  by (simp add: updateStatus_def Let_def save_fields set_status_def example_application_def)

text \<open>
  Claim C10. Two calls of \<^verbatim>\<open>updateStatus\<close> that differ in the acting user only end in
  the requested status with the same fees and visits; the whole results differ in nothing
  but the \<^verbatim>\<open>updatedBy\<close> field of the entry that the method pushes, which sits at the
  position where the old timeline ended.
\<close>

theorem actor_only_sets_updatedBy:
  "(let r1 = updateStatus newStatus notes actor1 now d;
        r2 = updateStatus newStatus notes actor2 now d
    in status r1 = newStatus \<and> status r2 = newStatus \<and> fees r1 = fees r2 \<and>
       visits r1 = visits r2 \<and>
       r1 = r2\<lparr>timeline := (timeline r2)[length (timeline d) :=
                  (timeline r2 ! length (timeline d))\<lparr>updatedBy := actor1\<rparr>]\<rparr>)"
  by (simp add: updateStatus_def Let_def save_def pre_save_def set_status_def nth_append
      list_update_append)

theorem actor_only_sets_updatedBy_witness:
  "fees (updateStatus Approved ''ok'' (Some 3) 5 example_application) =
     fees (updateStatus Approved ''ok'' (Some 4) 5 example_application) \<and>
   visits (updateStatus Approved ''ok'' (Some 3) 5 example_application) =
     visits (updateStatus Approved ''ok'' (Some 4) 5 example_application) \<and>
   status (updateStatus Approved ''ok'' (Some 3) 5 example_application) = Approved \<and>
   status (updateStatus Approved ''ok'' (Some 4) 5 example_application) = Approved"
  using actor_only_sets_updatedBy [of Approved "''ok''" "Some 3" 5 example_application "Some 4"]
  by (simp add: Let_def)

subsection \<open>The timeline\<close>

text \<open>
  Claim C2, as the code has it. \<^verbatim>\<open>updateStatus\<close> puts its entry (requested status, date,
  notes, acting user) right after the entries the timeline had. A \<^verbatim>\<open>completeVisit\<close> on
  an application as loaded from the store appends one entry when it changes the status,
  and that entry carries the new status and the date but neither notes nor a user; when
  it leaves the status alone it appends nothing. No method removes or rewrites an entry:
  the old timeline is a prefix of the new one, so its length never decreases.
\<close>

theorem timeline_only_grows:
  "(let d' = updateStatus newStatus notes actor now d
    in take (length (timeline d)) (timeline d') = timeline d \<and>
       length (timeline d) < length (timeline d') \<and>
       timeline d' ! length (timeline d) =
         \<lparr>entry_status = newStatus, entry_date = now, entry_notes = Some notes,
          updatedBy = actor\<rparr>) \<and>
   (\<forall>d'. completeVisit visitId oc vnotes now d = Inr d' \<longrightarrow> \<not> status_modified d \<longrightarrow>
      timeline d' = timeline d @
        (if status d' \<noteq> status d
         then [\<lparr>entry_status = status d', entry_date = now, entry_notes = None,
                updatedBy = None\<rparr>]
         else [])) \<and>
   (\<forall>d'. completeVisit visitId oc vnotes now d = Inr d' \<longrightarrow>
      take (length (timeline d)) (timeline d') = timeline d) \<and>
   take (length (timeline d)) (timeline (processPayment amt method txn now d)) = timeline d \<and>
   take (length (timeline d)) (timeline (scheduleVisit visitData now d)) = timeline d \<and>
   take (length (timeline d)) (timeline (addNote c a private now d)) = timeline d"
  by (auto simp add: updateStatus_def scheduleVisit_def addNote_def processPayment_def
      completeVisit_def Let_def save_fields set_status_def nth_append split: option.splits)

theorem timeline_only_grows_witness:
  "map_sum id timeline
     (completeVisit 11 OutcomeApproved (Some ''fine'') 5 example_application) =
   Inr (timeline example_application @
     [\<lparr>entry_status = HomeVisitCompleted, entry_date = 5, entry_notes = None,
       updatedBy = None\<rparr>]) \<and>
   \<not> status_modified example_application"
proof -
  obtain d' where d':
    "completeVisit 11 OutcomeApproved (Some ''fine'') 5 example_application = Inr d'"
    by (simp add: completeVisit_def example_application_def example_visits_def Let_def)
  have clean: "\<not> status_modified example_application"
    by (simp add: example_application_def)
  have st: "status d' = HomeVisitCompleted"
    using d'
    by (auto simp add: completeVisit_def example_application_def example_visits_def Let_def
        save_fields set_status_def)
  have "timeline d' = timeline example_application @
      (if status d' \<noteq> status example_application
       then [\<lparr>entry_status = status d', entry_date = 5, entry_notes = None, updatedBy = None\<rparr>]
       else [])"
    using timeline_only_grows [of UnderReview "[]" None 5 example_application 11
        OutcomeApproved "Some ''fine''" 0 "[]" "[]" "hd example_visits" "[]" None True]
      d' clean
    by (simp add: Let_def)
  then show ?thesis
    using d' st clean by (simp add: example_application_def)
qed

text \<open>
  On the example application, whose timeline has one entry, a single \<^verbatim>\<open>updateStatus\<close>
  to under-review leaves three entries: the method pushes one and the save hook, seeing the
  status modified, pushes another. The entry that an approved meet-and-greet visit adds
  holds no notes and no user, although notes were passed.
\<close>

theorem timeline_counterexample:
  "length (timeline example_application) = 1 \<and>
   length (timeline (updateStatus UnderReview ''ok'' (Some 3) 5 example_application)) = 3 \<and>
   map_sum id timeline
     (completeVisit 10 OutcomeApproved (Some ''went well'') 5 example_application) =
     Inr (timeline example_application @
       [\<lparr>entry_status = MeetCompleted, entry_date = 5, entry_notes = None, updatedBy = None\<rparr>])"
  by (simp add: updateStatus_def completeVisit_def Let_def save_fields set_status_def
      example_application_def example_visits_def)

subsection \<open>Fees and payments\<close>

text \<open>
  Claim C7. Each instance method ends in a save, and the save hook computes the total
  anew: after \<^verbatim>\<open>updateStatus\<close>, \<^verbatim>\<open>scheduleVisit\<close>, \<^verbatim>\<open>addNote\<close>, \<^verbatim>\<open>processPayment\<close> and a
  successful \<^verbatim>\<open>completeVisit\<close> the stored total is the adoption fee plus the sum of the
  additional amounts, whatever total the document held before.
\<close>

theorem every_save_recomputes_total:
  "(let d' = updateStatus newStatus notes actor now d
    in fees_total (fees d') = adoption (fees d') + sum_list (map amount (additional (fees d')))) \<and>
   (let d' = scheduleVisit visitData now d
    in fees_total (fees d') = adoption (fees d') + sum_list (map amount (additional (fees d')))) \<and>
   (let d' = addNote c a private now d
    in fees_total (fees d') = adoption (fees d') + sum_list (map amount (additional (fees d')))) \<and>
   (let d' = processPayment amt method txn now d
    in fees_total (fees d') = adoption (fees d') + sum_list (map amount (additional (fees d')))) \<and>
   (\<forall>d'. completeVisit visitId oc vnotes now d = Inr d' \<longrightarrow>
      fees_total (fees d') = adoption (fees d') + sum_list (map amount (additional (fees d'))))"
  by (auto simp add: updateStatus_def scheduleVisit_def addNote_def processPayment_def
      completeVisit_def Let_def save_total_ok split: option.splits)

text \<open>
  The example application holds a stale total of 5 next to a fee of 200 and one additional
  fee of 30; the visit is found, and the saved document has the total 230.
\<close>

theorem every_save_recomputes_total_witness:
  "map_sum id (\<lambda>d'. (fees_total (fees d'), adoption (fees d'), map amount (additional (fees d'))))
     (completeVisit 10 OutcomeApproved None 5
        (example_application\<lparr>fees := example_fees\<lparr>fees_total := 5,
           additional := [\<lparr>description = ''microchip'', amount = 30\<rparr>]\<rparr>\<rparr>)) =
   Inr (230, 200, [30])"
proof -
  let ?d = "example_application\<lparr>fees := example_fees\<lparr>fees_total := 5,
           additional := [\<lparr>description = ''microchip'', amount = 30\<rparr>]\<rparr>\<rparr>"
  obtain d' where d': "completeVisit 10 OutcomeApproved None 5 ?d = Inr d'"
    by (simp add: completeVisit_def example_application_def example_visits_def Let_def)
  have parts: "adoption (fees d') = 200" "map amount (additional (fees d')) = [30]"
    using d'
    by (auto simp add: completeVisit_def example_application_def example_visits_def
        example_fees_def Let_def save_total set_status_def)
  have "fees_total (fees d') = adoption (fees d') + sum_list (map amount (additional (fees d')))"
    using every_save_recomputes_total [of UnderReview "[]" None 5 ?d "hd example_visits"
        "[]" None True 0 "[]" "[]" 10 OutcomeApproved None] d'
    by (simp add: Let_def)
  then show ?thesis
    using d' parts by simp
qed

text \<open>
  Claim C4, as the code has it. \<^verbatim>\<open>processPayment\<close> does not validate the amount: for
  every amount, positive or not, the paid sum grows by the amount. On a document whose
  stored total agrees with its fee components, the payment status afterwards is paid when
  the paid sum has reached the total and partial otherwise, and an application in status
  adoption-approved whose paid sum has reached the total ends in adoption-completed; in
  every other case the status stays. The method acts on the application document alone.
\<close>

theorem processPayment_effect:
  assumes "fees_total (fees d) = adoption (fees d) + sum_list (map amount (additional (fees d)))"
  shows "(let d' = processPayment amt method txn now d
          in paid (fees d') = paid (fees d) + amt \<and>
             fees_total (fees d') = fees_total (fees d) \<and>
             paymentStatus (fees d') =
               (if fees_total (fees d') \<le> paid (fees d') then PayPaid else PayPartial) \<and>
             status d' =
               (if fees_total (fees d') \<le> paid (fees d') \<and> status d = AdoptionApproved
                then AdoptionCompleted else status d))"
  using assms
  by (simp add: processPayment_def Let_def fees_save save_fields set_status_def
      update_payment_status_def computed_total_sum)

text \<open>Scenario D of the specification: a payment of 200 on a total of 200.\<close>

theorem processPayment_effect_witness:
  "(let d' = processPayment 200 ''card'' ''txn1'' 5
               (example_application\<lparr>status := AdoptionApproved\<rparr>)
    in paid (fees d') = 200 \<and> fees_total (fees d') = 200 \<and> paymentStatus (fees d') = PayPaid \<and>
       status d' = AdoptionCompleted)"
  using processPayment_effect
    [of "example_application\<lparr>status := AdoptionApproved\<rparr>" 200 "''card''" "''txn1''" 5]
  by (simp add: example_application_def example_fees_def Let_def)

text \<open>
  A payment of -50 is accepted: the paid sum of the example application goes from 0 to
  -50 and the payment status becomes partial.
\<close>

theorem processPayment_counterexample:
  "paid (fees example_application) = 0 \<and>
   paid (fees (processPayment (- 50) ''card'' ''txn0'' 5 example_application)) = - 50 \<and>
   paymentStatus (fees (processPayment (- 50) ''card'' ''txn0'' 5 example_application)) =
     PayPartial"
  by (simp add: processPayment_def Let_def fees_save save_fields set_status_def
      update_payment_status_def computed_total_sum example_application_def example_fees_def)

subsection \<open>Visits\<close>

text \<open>
  Claim C8, as the code has it. When no visit has the given id, \<^verbatim>\<open>completeVisit\<close> throws
  the error \<^verbatim>\<open>Visit not found\<close>. Otherwise it succeeds, the first visit with that id is
  completed with the given outcome, notes and completion date, and the number of visits
  stays. An approved meet-and-greet visit puts the application in meet-completed and an
  approved home visit in home-visit-completed; in every other case, a rejected outcome
  among them, the status stays as it was, and for an outcome other than approved the
  timeline of an application as loaded from the store stays as it was, too.
\<close>

theorem completeVisit_effect:
  "(find (\<lambda>v. visit_id v = visitId) (visits d) = None \<longrightarrow>
      completeVisit visitId oc vnotes now d = Inl (Error ''Visit not found'')) \<and>
   (\<forall>v. find (\<lambda>v. visit_id v = visitId) (visits d) = Some v \<longrightarrow>
      (\<exists>d'. completeVisit visitId oc vnotes now d = Inr d' \<and>
         length (visits d') = length (visits d) \<and>
         find (\<lambda>v. visit_id v = visitId) (visits d') =
           Some (v\<lparr>visit_status := VisitCompleted, visit_outcome := Some oc,
                   visit_notes := vnotes, completedAt := Some now\<rparr>) \<and>
         status d' =
           (if oc = OutcomeApproved \<and> visit_type v = MeetAndGreet then MeetCompleted
            else if oc = OutcomeApproved \<and> visit_type v = HomeVisit then HomeVisitCompleted
            else status d) \<and>
         (oc \<noteq> OutcomeApproved \<longrightarrow> \<not> status_modified d \<longrightarrow> timeline d' = timeline d)))"
proof (intro conjI allI impI)
  assume "find (\<lambda>v. visit_id v = visitId) (visits d) = None"
  then show "completeVisit visitId oc vnotes now d = Inl (Error ''Visit not found'')"
    by (simp add: completeVisit_def)
next
  fix v
  assume found: "find (\<lambda>v. visit_id v = visitId) (visits d) = Some v"
  then have vid: "visit_id v = visitId"
    by (auto simp: find_Some_iff)
  let ?f = "\<lambda>v. v\<lparr>visit_status := VisitCompleted, visit_outcome := Some oc,
                   visit_notes := vnotes, completedAt := Some now\<rparr>"
  have upd: "find (\<lambda>v. visit_id v = visitId)
      (update_first (\<lambda>v. visit_id v = visitId) ?f (visits d)) = Some (?f v)"
    using found vid by (intro find_update_first) simp_all
  show "\<exists>d'. completeVisit visitId oc vnotes now d = Inr d' \<and>
         length (visits d') = length (visits d) \<and>
         find (\<lambda>v. visit_id v = visitId) (visits d') = Some (?f v) \<and>
         status d' =
           (if oc = OutcomeApproved \<and> visit_type v = MeetAndGreet then MeetCompleted
            else if oc = OutcomeApproved \<and> visit_type v = HomeVisit then HomeVisitCompleted
            else status d) \<and>
         (oc \<noteq> OutcomeApproved \<longrightarrow> \<not> status_modified d \<longrightarrow> timeline d' = timeline d)"
    using found upd
    by (cases "oc = OutcomeApproved")
       (simp_all add: completeVisit_def Let_def save_fields set_status_def length_update_first)
qed

theorem completeVisit_effect_witness:
  "find (\<lambda>v. visit_id v = 11) (visits example_application) = Some (example_visits ! 1) \<and>
   find (\<lambda>v. visit_id v = 99) (visits example_application) = None \<and>
   completeVisit 99 OutcomeApproved None 5 example_application = Inl (Error ''Visit not found'') \<and>
   map_sum id status (completeVisit 11 OutcomeApproved None 5 example_application) =
     Inr HomeVisitCompleted \<and>
   map_sum id (\<lambda>d'. timeline d' = timeline example_application)
     (completeVisit 11 OutcomeNeedsFollowUp None 5 example_application) = Inr True"
proof -
  have f11: "find (\<lambda>v. visit_id v = 11) (visits example_application) = Some (example_visits ! 1)"
    and f99: "find (\<lambda>v. visit_id v = 99) (visits example_application) = None"
    and clean: "\<not> status_modified example_application"
    by (simp_all add: example_application_def example_visits_def)
  have ty: "visit_type (example_visits ! 1) = HomeVisit"
    by (simp add: example_visits_def)
  from completeVisit_effect [of 99 example_application OutcomeApproved None 5] f99
  have a: "completeVisit 99 OutcomeApproved None 5 example_application =
      Inl (Error ''Visit not found'')"
    by blast
  from completeVisit_effect [of 11 example_application OutcomeApproved None 5] f11 ty
  have b: "map_sum id status (completeVisit 11 OutcomeApproved None 5 example_application) =
      Inr HomeVisitCompleted"
    by auto
  from completeVisit_effect [of 11 example_application OutcomeNeedsFollowUp None 5] f11 clean
  have c: "map_sum id (\<lambda>d'. timeline d' = timeline example_application)
      (completeVisit 11 OutcomeNeedsFollowUp None 5 example_application) = Inr True"
    by auto
  from f11 f99 a b c show ?thesis by blast
qed

text \<open>
  A rejected meet-and-greet visit on the submitted example application: the application
  stays submitted and its timeline stays as it was.
\<close>

theorem completeVisit_rejected_counterexample:
  "map_sum id status
     (completeVisit 10 OutcomeRejected (Some ''not a match'') 5 example_application) =
     Inr Submitted \<and>
   map_sum id timeline
     (completeVisit 10 OutcomeRejected (Some ''not a match'') 5 example_application) =
     Inr (timeline example_application)"
  by (simp add: completeVisit_def Let_def save_fields set_status_def
      example_application_def example_visits_def)

section \<open>Submitting an application\<close>

text \<open>
  The handler stores nothing, whatever it is given: the duplicate check reads the paths
  \<^verbatim>\<open>pet\<close> and \<^verbatim>\<open>adopter\<close>, which no stored document has, so it never finds a request,
  and \<^verbatim>\<open>Adoption.create\<close> rejects the payload. The three answers are the missing pet,
  the pet that is not available, and the validation error.
\<close>

lemma post_adoptions_stores_nothing:
  "post_adoptions pets adoptions userId petId details = Inl (HttpError 404 ''Pet not found'') \<or>
   post_adoptions pets adoptions userId petId details =
     Inl (HttpError 400 ''This pet is not available for adoption'') \<or>
   post_adoptions pets adoptions userId petId details =
     Inl (ValidationError ''Adoption validation failed'')"
proof -
  have "find (\<lambda>a. stored_path ''pet'' a = Some p \<and> stored_path ''adopter'' a = Some userId \<and>
      status_name (status a) \<in> set [''pending'', ''approved'']) adoptions = None" for p
    by (simp add: find_None_iff stored_path_def)
  then show ?thesis
    by (simp add: post_adoptions_def Adoption_create_def split: option.splits)
qed

text \<open>
  Claim C3, on the code. The store holds the example application, submitted by user 7
  for pet 1 and active by \<^verbatim>\<open>isActive\<close>; pet 1 is available. User 7 posts a request for
  pet 1 again. The duplicate check does not find the application, the handler goes on to
  \<^verbatim>\<open>Adoption.create\<close>, and the request ends in the validation error of
  \<^verbatim>\<open>Adoption.create\<close>, not in the answer of the duplicate check.
\<close>

theorem post_adoptions_duplicate_submitted:
  "isActive example_application \<and> pet example_application = 1 \<and>
   applicant example_application = 7 \<and>
   post_adoptions [example_pet] [example_application] 7 1 details =
     Inl (ValidationError ''Adoption validation failed'')"
  by (simp add: post_adoptions_def Adoption_create_def stored_path_def example_pet_def
      example_application_def isActive_def activeStatuses_def)

section \<open>Properties of the activity document\<close>

subsection \<open>Saves, promotion and removal\<close>

lemma activity_save_Inr:
  "activity_save a = Inr a' \<Longrightarrow>
     participants a' = participants a \<and> capacity a' = capacity a \<and>
     current (capacity a) \<le> max_capacity (capacity a) \<and> capacity_valid (capacity a) \<and>
     date_start a < date_end a"
  by (auto simp add: activity_save_def activity_pre_save_def split: if_splits)

lemma activity_save_ok:
  "capacity_valid (capacity a) \<Longrightarrow> date_start a < date_end a \<Longrightarrow>
   current (capacity a) \<le> max_capacity (capacity a) \<Longrightarrow>
   \<exists>a'. activity_save a = Inr a'"
  by (simp add: activity_save_def activity_pre_save_def)

lemma addParticipant_Inr:
  assumes "addParticipant userId Registered now a = Inr a'"
  shows "participants a' = participants a @
           [\<lparr>user = userId, registeredAt = now,
             participant_status =
               (if current (capacity a) < max_capacity (capacity a) then Registered
                else Waitlisted)\<rparr>]"
    and "capacity a' =
           (if current (capacity a) < max_capacity (capacity a)
            then (capacity a)\<lparr>current := current (capacity a) + 1\<rparr>
            else (capacity a)\<lparr>waitlist := waitlist (capacity a) + 1\<rparr>)"
  using assms
  by (auto simp add: addParticipant_def Let_def dest!: activity_save_Inr split: if_splits)

lemma update_first_split:
  "find P ps = Some w \<Longrightarrow>
   \<exists>xs ys. ps = xs @ w # ys \<and> (\<forall>q \<in> set xs. \<not> P q) \<and> update_first P f ps = xs @ f w # ys"
proof (induction ps)
  case Nil
  then show ?case by simp
next
  case (Cons x ps)
  show ?case
  proof (cases "P x")
    case True
    with Cons.prems have "x = w" by simp
    with True show ?thesis by (intro exI [of _ "[]"] exI [of _ ps]) simp
  next
    case False
    with Cons obtain xs ys where
      "ps = xs @ w # ys" "\<forall>q \<in> set xs. \<not> P q" "update_first P f ps = xs @ f w # ys"
      by auto
    with False show ?thesis
      by (intro exI [of _ "x # xs"] exI [of _ ys]) simp
  qed
qed

lemma find_Some_count:
  "find P ps = Some w \<Longrightarrow> Q w \<Longrightarrow> 1 \<le> int (length (filter Q ps))"
proof -
  assume "find P ps = Some w" "Q w"
  then have "w \<in> set (filter Q ps)"
    by (auto simp add: find_Some_iff)
  then have "filter Q ps \<noteq> []"
    by (metis empty_iff empty_set)
  then show ?thesis
    by (cases "filter Q ps") simp_all
qed

lemma removeParticipant_succeeds:
  assumes dates: "date_start a < date_end a"
    and cap: "1 \<le> max_capacity (capacity a)" "current (capacity a) \<le> max_capacity (capacity a)"
    and cnt: "current (capacity a) = count_status Registered a"
      "waitlist (capacity a) = count_status Waitlisted a"
    and p: "find (\<lambda>q. user q = userId) (participants a) = Some p"
  shows "\<exists>a'. removeParticipant userId a = Inr (Some a')"
proof -
  have nonneg: "0 \<le> current (capacity a)" "0 \<le> waitlist (capacity a)"
    using cnt by (simp_all add: count_status_def)
  have reg: "participant_status p = Registered \<Longrightarrow> 1 \<le> current (capacity a)"
    using find_Some_count [OF p, of "\<lambda>q. participant_status q = Registered"] cnt
    by (simp add: count_status_def)
  have wl: "participant_status p = Waitlisted \<Longrightarrow> 1 \<le> waitlist (capacity a)"
    using find_Some_count [OF p, of "\<lambda>q. participant_status q = Waitlisted"] cnt
    by (simp add: count_status_def)
  have wl': "find (\<lambda>q. participant_status q = Waitlisted) (participants a) = Some w \<Longrightarrow>
      1 \<le> waitlist (capacity a)" for w
  proof -
    assume w: "find (\<lambda>q. participant_status q = Waitlisted) (participants a) = Some w"
    then have "participant_status w = Waitlisted"
      by (auto simp add: find_Some_iff)
    with find_Some_count [OF w, of "\<lambda>q. participant_status q = Waitlisted"] cnt
    show ?thesis by (simp add: count_status_def)
  qed
  show ?thesis
    using p dates cap nonneg reg wl wl'
    by (auto simp add: removeParticipant_def promote_waitlisted_def Let_def activity_save_def
        activity_pre_save_def capacity_valid_def pull_def split: option.splits)
qed

lemma removeParticipant_Inr:
  assumes "removeParticipant userId a = Inr (Some a')"
    and "find (\<lambda>q. user q = userId) (participants a) = Some p"
  shows "participant_status p = Registered \<Longrightarrow>
           participants a' = participants (promote_waitlisted
                (a\<lparr>capacity := (capacity a)\<lparr>current := current (capacity a) - 1\<rparr>\<rparr>)) \<and>
           capacity a' = capacity (promote_waitlisted
                (a\<lparr>capacity := (capacity a)\<lparr>current := current (capacity a) - 1\<rparr>\<rparr>))"
    and "participant_status p = Waitlisted \<Longrightarrow>
           participants a' = participants a \<and>
           capacity a' = (capacity a)\<lparr>waitlist := waitlist (capacity a) - 1\<rparr>"
  using assms
  by (auto simp add: removeParticipant_def Let_def pull_def split: sum.splits
      dest!: activity_save_Inr)

lemma scenario_C_steps:
  "addParticipant 1 Registered 10 example_activity = Inr example_activity_A"
  "addParticipant 2 Registered 20 example_activity_A = Inr example_activity_AB"
  "removeParticipant 1 example_activity_AB = Inr (Some example_activity_left)"
  by (simp_all add: addParticipant_def removeParticipant_def promote_waitlisted_def pull_def
      activity_save_def activity_pre_save_def capacity_valid_def Let_def
      example_activity_def example_activity_A_def example_activity_AB_def
      example_activity_left_def)

subsection \<open>Registering\<close>

text \<open>
  Claim C5. On an activity as the store holds it, one that passes the checks of a save
  (end after start, valid capacity counters, \<^verbatim>\<open>current\<close> not above \<^verbatim>\<open>max\<close>),
  \<^verbatim>\<open>addParticipant\<close> with the default status never fails, whoever the user is: below
  \<^verbatim>\<open>max\<close> it appends the user as registered and increments \<^verbatim>\<open>current\<close>, and at \<^verbatim>\<open>max\<close>
  it appends the user as waitlisted and increments \<^verbatim>\<open>waitlist\<close>.
\<close>

theorem addParticipant_registers_or_waitlists:
  "date_start a < date_end a \<and> capacity_valid (capacity a) \<and>
   current (capacity a) \<le> max_capacity (capacity a) \<longrightarrow>
     (\<exists>a'. addParticipant userId Registered now a = Inr a' \<and>
        participants a' = participants a @
          [\<lparr>user = userId, registeredAt = now,
            participant_status =
              (if current (capacity a) < max_capacity (capacity a) then Registered
               else Waitlisted)\<rparr>] \<and>
        capacity a' =
          (if current (capacity a) < max_capacity (capacity a)
           then (capacity a)\<lparr>current := current (capacity a) + 1\<rparr>
           else (capacity a)\<lparr>waitlist := waitlist (capacity a) + 1\<rparr>))"
proof
  assume ok: "date_start a < date_end a \<and> capacity_valid (capacity a) \<and>
    current (capacity a) \<le> max_capacity (capacity a)"
  then have "\<exists>a'. addParticipant userId Registered now a = Inr a'"
    by (auto simp add: addParticipant_def Let_def capacity_valid_def intro!: activity_save_ok)
  then obtain a' where a': "addParticipant userId Registered now a = Inr a'" ..
  from addParticipant_Inr [OF a'] a'
  show "\<exists>a'. addParticipant userId Registered now a = Inr a' \<and>
         participants a' = participants a @
           [\<lparr>user = userId, registeredAt = now,
             participant_status =
               (if current (capacity a) < max_capacity (capacity a) then Registered
                else Waitlisted)\<rparr>] \<and>
         capacity a' =
           (if current (capacity a) < max_capacity (capacity a)
            then (capacity a)\<lparr>current := current (capacity a) + 1\<rparr>
            else (capacity a)\<lparr>waitlist := waitlist (capacity a) + 1\<rparr>)"
    by blast
qed

text \<open>
  The first two steps of Scenario C: user 1 takes the one place, user 2 is put on the
  waiting list.
\<close>

theorem addParticipant_registers_or_waitlists_witness:
  "map_sum id (\<lambda>a'. (participants a', capacity a'))
     (addParticipant 1 Registered 10 example_activity) =
     Inr ([\<lparr>user = 1, registeredAt = 10, participant_status = Registered\<rparr>],
          \<lparr>max_capacity = 1, current = 1, waitlist = 0\<rparr>) \<and>
   map_sum id (\<lambda>a'. (participants a', capacity a'))
     (addParticipant 2 Registered 20 example_activity_A) =
     Inr ([\<lparr>user = 1, registeredAt = 10, participant_status = Registered\<rparr>,
           \<lparr>user = 2, registeredAt = 20, participant_status = Waitlisted\<rparr>],
          \<lparr>max_capacity = 1, current = 1, waitlist = 1\<rparr>)"
proof -
  have ok0: "date_start example_activity < date_end example_activity \<and>
      capacity_valid (capacity example_activity) \<and>
      current (capacity example_activity) \<le> max_capacity (capacity example_activity)"
    by (simp add: example_activity_def capacity_valid_def)
  have ok1: "date_start example_activity_A < date_end example_activity_A \<and>
      capacity_valid (capacity example_activity_A) \<and>
      current (capacity example_activity_A) \<le> max_capacity (capacity example_activity_A)"
    by (simp add: example_activity_A_def example_activity_def capacity_valid_def)
  from addParticipant_registers_or_waitlists [of example_activity 1 10] ok0
  obtain a0 where a0: "addParticipant 1 Registered 10 example_activity = Inr a0"
    and "participants a0 = participants example_activity @
           [\<lparr>user = 1, registeredAt = 10,
             participant_status =
               (if current (capacity example_activity) < max_capacity (capacity example_activity)
                then Registered else Waitlisted)\<rparr>]"
    and "capacity a0 =
           (if current (capacity example_activity) < max_capacity (capacity example_activity)
            then (capacity example_activity)\<lparr>current := current (capacity example_activity) + 1\<rparr>
            else (capacity example_activity)\<lparr>waitlist := waitlist (capacity example_activity) + 1\<rparr>)"
    by blast
  then have first: "map_sum id (\<lambda>a'. (participants a', capacity a'))
     (addParticipant 1 Registered 10 example_activity) =
     Inr ([\<lparr>user = 1, registeredAt = 10, participant_status = Registered\<rparr>],
          \<lparr>max_capacity = 1, current = 1, waitlist = 0\<rparr>)"
    by (simp add: example_activity_def)
  from addParticipant_registers_or_waitlists [of example_activity_A 2 20] ok1
  obtain a1 where a1: "addParticipant 2 Registered 20 example_activity_A = Inr a1"
    and "participants a1 = participants example_activity_A @
           [\<lparr>user = 2, registeredAt = 20,
             participant_status =
               (if current (capacity example_activity_A) < max_capacity (capacity example_activity_A)
                then Registered else Waitlisted)\<rparr>]"
    and "capacity a1 =
           (if current (capacity example_activity_A) < max_capacity (capacity example_activity_A)
            then (capacity example_activity_A)\<lparr>current := current (capacity example_activity_A) + 1\<rparr>
            else (capacity example_activity_A)\<lparr>waitlist := waitlist (capacity example_activity_A) + 1\<rparr>)"
    by blast
  then have second: "map_sum id (\<lambda>a'. (participants a', capacity a'))
     (addParticipant 2 Registered 20 example_activity_A) =
     Inr ([\<lparr>user = 1, registeredAt = 10, participant_status = Registered\<rparr>,
           \<lparr>user = 2, registeredAt = 20, participant_status = Waitlisted\<rparr>],
          \<lparr>max_capacity = 1, current = 1, waitlist = 1\<rparr>)"
    by (simp add: example_activity_A_def example_activity_def)
  from first second show ?thesis by blast
qed

subsection \<open>Unregistering\<close>

text \<open>
  Claim C6, as the code has it. \<^verbatim>\<open>removeParticipant\<close> looks at the first entry of the
  user. When that entry is registered and the save succeeds: without a waitlisted
  participant \<^verbatim>\<open>current\<close> goes down by one and \<^verbatim>\<open>waitlist\<close> stays; with one, the first
  waitlisted participant in the order of the array, and no other, becomes registered,
  \<^verbatim>\<open>current\<close> ends as it was and \<^verbatim>\<open>waitlist\<close> goes down by one. The registration dates
  are not read: the promoted participant is the one that registered earliest when the
  array is in the order of the registration dates. When the entry is waitlisted,
  \<^verbatim>\<open>waitlist\<close> alone goes down by one. The entries of the other users change in nothing
  but that promotion. The save succeeds on an activity whose end is after its start and
  whose counters agree with its participants and respect \<^verbatim>\<open>max\<close>.
\<close>

theorem removeParticipant_promotes_first_waitlisted:
  "(\<forall>a'. removeParticipant userId a = Inr (Some a') \<longrightarrow>
      find (\<lambda>q. user q = userId) (participants a) = Some p \<longrightarrow>
      (participant_status p = Registered \<longrightarrow>
         (find (\<lambda>q. participant_status q = Waitlisted) (participants a) = None \<longrightarrow>
            current (capacity a') = current (capacity a) - 1 \<and>
            waitlist (capacity a') = waitlist (capacity a) \<and>
            filter (\<lambda>q. user q \<noteq> userId) (participants a') =
              filter (\<lambda>q. user q \<noteq> userId) (participants a)) \<and>
         (\<forall>w. find (\<lambda>q. participant_status q = Waitlisted) (participants a) = Some w \<longrightarrow>
            current (capacity a') = current (capacity a) \<and>
            waitlist (capacity a') = waitlist (capacity a) - 1 \<and>
            (\<exists>xs ys. participants a = xs @ w # ys \<and>
               (\<forall>q \<in> set xs. participant_status q \<noteq> Waitlisted) \<and>
               filter (\<lambda>q. user q \<noteq> userId) (participants a') =
                 filter (\<lambda>q. user q \<noteq> userId)
                   (xs @ w\<lparr>participant_status := Registered\<rparr> # ys)) \<and>
            (sorted_wrt (\<lambda>x y. registeredAt x \<le> registeredAt y) (participants a) \<longrightarrow>
               (\<forall>q \<in> set (participants a).
                  participant_status q = Waitlisted \<longrightarrow> registeredAt w \<le> registeredAt q)))) \<and>
      (participant_status p = Waitlisted \<longrightarrow>
         current (capacity a') = current (capacity a) \<and>
         waitlist (capacity a') = waitlist (capacity a) - 1 \<and>
         filter (\<lambda>q. user q \<noteq> userId) (participants a') =
           filter (\<lambda>q. user q \<noteq> userId) (participants a))) \<and>
   (date_start a < date_end a \<and> 1 \<le> max_capacity (capacity a) \<and>
    current (capacity a) \<le> max_capacity (capacity a) \<and>
    current (capacity a) = count_status Registered a \<and>
    waitlist (capacity a) = count_status Waitlisted a \<and>
    find (\<lambda>q. user q = userId) (participants a) = Some p \<longrightarrow>
      (\<exists>a'. removeParticipant userId a = Inr (Some a')))"
proof (intro conjI allI impI)
  fix a'
  assume rm: "removeParticipant userId a = Inr (Some a')"
    and p: "find (\<lambda>q. user q = userId) (participants a) = Some p"
    and reg: "participant_status p = Registered"
    and none: "find (\<lambda>q. participant_status q = Waitlisted) (participants a) = None"
  from removeParticipant_Inr(1) [OF rm p reg] none
  show "current (capacity a') = current (capacity a) - 1"
    and "waitlist (capacity a') = waitlist (capacity a)"
    and "filter (\<lambda>q. user q \<noteq> userId) (participants a') =
      filter (\<lambda>q. user q \<noteq> userId) (participants a)"
    by (simp_all add: promote_waitlisted_def)
next
  fix a' w
  assume rm: "removeParticipant userId a = Inr (Some a')"
    and p: "find (\<lambda>q. user q = userId) (participants a) = Some p"
    and reg: "participant_status p = Registered"
    and w: "find (\<lambda>q. participant_status q = Waitlisted) (participants a) = Some w"
  from removeParticipant_Inr(1) [OF rm p reg] w
  have res: "participants a' =
        update_first (\<lambda>q. participant_status q = Waitlisted)
           (\<lambda>q. q\<lparr>participant_status := Registered\<rparr>) (participants a)"
    "current (capacity a') = current (capacity a)"
    "waitlist (capacity a') = waitlist (capacity a) - 1"
    by (simp_all add: promote_waitlisted_def)
  from update_first_split [OF w, of "\<lambda>q. q\<lparr>participant_status := Registered\<rparr>"]
  obtain xs ys where split: "participants a = xs @ w # ys"
    "\<forall>q \<in> set xs. participant_status q \<noteq> Waitlisted"
    "update_first (\<lambda>q. participant_status q = Waitlisted)
       (\<lambda>q. q\<lparr>participant_status := Registered\<rparr>) (participants a) =
     xs @ w\<lparr>participant_status := Registered\<rparr> # ys"
    by blast
  show "current (capacity a') = current (capacity a)"
    and "waitlist (capacity a') = waitlist (capacity a) - 1"
    using res by simp_all
  show "\<exists>xs ys. participants a = xs @ w # ys \<and>
       (\<forall>q \<in> set xs. participant_status q \<noteq> Waitlisted) \<and>
       filter (\<lambda>q. user q \<noteq> userId) (participants a') =
         filter (\<lambda>q. user q \<noteq> userId) (xs @ w\<lparr>participant_status := Registered\<rparr> # ys)"
    using res(1) split by auto
  show "\<forall>q \<in> set (participants a).
      participant_status q = Waitlisted \<longrightarrow> registeredAt w \<le> registeredAt q"
    if sorted: "sorted_wrt (\<lambda>x y. registeredAt x \<le> registeredAt y) (participants a)"
  proof (intro ballI impI)
    fix q
    assume q: "q \<in> set (participants a)" "participant_status q = Waitlisted"
    from q split have "q = w \<or> q \<in> set ys"
      by auto
    with sorted split(1) show "registeredAt w \<le> registeredAt q"
      by (auto simp add: sorted_wrt_append)
  qed
next
  fix a'
  assume rm: "removeParticipant userId a = Inr (Some a')"
    and p: "find (\<lambda>q. user q = userId) (participants a) = Some p"
    and wl: "participant_status p = Waitlisted"
  from removeParticipant_Inr(2) [OF rm p wl]
  show "current (capacity a') = current (capacity a)"
    and "waitlist (capacity a') = waitlist (capacity a) - 1"
    and "filter (\<lambda>q. user q \<noteq> userId) (participants a') =
      filter (\<lambda>q. user q \<noteq> userId) (participants a)"
    by simp_all
next
  assume "date_start a < date_end a \<and> 1 \<le> max_capacity (capacity a) \<and>
    current (capacity a) \<le> max_capacity (capacity a) \<and>
    current (capacity a) = count_status Registered a \<and>
    waitlist (capacity a) = count_status Waitlisted a \<and>
    find (\<lambda>q. user q = userId) (participants a) = Some p"
  then show "\<exists>a'. removeParticipant userId a = Inr (Some a')"
    by (intro removeParticipant_succeeds) simp_all
qed

text \<open>
  The last step of Scenario C: user 1 unregisters from the activity in which user 2 waits.
\<close>

theorem removeParticipant_promotes_first_waitlisted_witness:
  "find (\<lambda>q. user q = 1) (participants example_activity_AB) =
     Some \<lparr>user = 1, registeredAt = 10, participant_status = Registered\<rparr> \<and>
   find (\<lambda>q. participant_status q = Waitlisted) (participants example_activity_AB) =
     Some \<lparr>user = 2, registeredAt = 20, participant_status = Waitlisted\<rparr> \<and>
   current (capacity example_activity_AB) = 1 \<and> waitlist (capacity example_activity_AB) = 1 \<and>
   map_sum id (map_option (\<lambda>a'. (current (capacity a'), waitlist (capacity a'))))
     (removeParticipant 1 example_activity_AB) = Inr (Some (1, 0))"
proof -
  let ?p = "\<lparr>user = 1, registeredAt = 10, participant_status = Registered\<rparr>"
  let ?w = "\<lparr>user = 2, registeredAt = 20, participant_status = Waitlisted\<rparr>"
  have p: "find (\<lambda>q. user q = 1) (participants example_activity_AB) = Some ?p"
    and w: "find (\<lambda>q. participant_status q = Waitlisted) (participants example_activity_AB) =
      Some ?w"
    and c: "current (capacity example_activity_AB) = 1" "waitlist (capacity example_activity_AB) = 1"
    by (simp_all add: example_activity_AB_def example_activity_def)
  have ok: "date_start example_activity_AB < date_end example_activity_AB \<and>
      1 \<le> max_capacity (capacity example_activity_AB) \<and>
      current (capacity example_activity_AB) \<le> max_capacity (capacity example_activity_AB) \<and>
      current (capacity example_activity_AB) = count_status Registered example_activity_AB \<and>
      waitlist (capacity example_activity_AB) = count_status Waitlisted example_activity_AB"
    by (simp add: example_activity_AB_def example_activity_def count_status_def)
  note inst = removeParticipant_promotes_first_waitlisted
    [where userId = 1 and a = example_activity_AB and p = ?p]
  from inst ok p obtain a' where a': "removeParticipant 1 example_activity_AB = Inr (Some a')"
    by blast
  from inst a' p w have "current (capacity a') = current (capacity example_activity_AB) \<and>
      waitlist (capacity a') = waitlist (capacity example_activity_AB) - 1"
    by simp
  with a' c have model: "map_sum id (map_option (\<lambda>a'. (current (capacity a'), waitlist (capacity a'))))
     (removeParticipant 1 example_activity_AB) = Inr (Some (1, 0))"
    by simp
  from p w c model show ?thesis by blast
qed

text \<open>
  On the activity with the unordered waiting list, the removal of user 1 promotes user 2,
  who stands first in the array, although user 3 registered earlier.
\<close>

theorem removeParticipant_unordered_counterexample:
  "map_sum id (map_option participants) (removeParticipant 1 example_activity_unordered) =
     Inr (Some [\<lparr>user = 1, registeredAt = 10, participant_status = Registered\<rparr>,
                \<lparr>user = 2, registeredAt = 50, participant_status = Registered\<rparr>,
                \<lparr>user = 3, registeredAt = 30, participant_status = Waitlisted\<rparr>]) \<and>
   participants example_activity_unordered =
     [\<lparr>user = 1, registeredAt = 10, participant_status = Registered\<rparr>,
      \<lparr>user = 2, registeredAt = 50, participant_status = Waitlisted\<rparr>,
      \<lparr>user = 3, registeredAt = 30, participant_status = Waitlisted\<rparr>]"
  by (simp add: removeParticipant_def promote_waitlisted_def pull_def Let_def activity_save_def
      activity_pre_save_def capacity_valid_def example_activity_unordered_def
      example_activity_def)

subsection \<open>The capacity counters\<close>

text \<open>
  Claim C9, on the code. Scenario C from an activity with one place: user 1 registers,
  user 2 registers and waits, and the counters agree with the participants. Then user 1
  unregisters: user 2 is promoted and \<^verbatim>\<open>current\<close> is 1, but the entry of user 1 is still
  in the array with the status registered, so two participants are registered. When it is
  user 2 who unregisters, \<^verbatim>\<open>waitlist\<close> is 0 and one participant is still waitlisted.
\<close>

theorem counters_disagree_after_unregister:
  "addParticipant 1 Registered 10 example_activity = Inr example_activity_A \<and>
   addParticipant 2 Registered 20 example_activity_A = Inr example_activity_AB \<and>
   current (capacity example_activity_AB) = count_status Registered example_activity_AB \<and>
   waitlist (capacity example_activity_AB) = count_status Waitlisted example_activity_AB \<and>
   removeParticipant 1 example_activity_AB = Inr (Some example_activity_left) \<and>
   current (capacity example_activity_left) = 1 \<and>
   count_status Registered example_activity_left = 2 \<and>
   map_sum id (map_option (\<lambda>a'. (waitlist (capacity a'), count_status Waitlisted a')))
     (removeParticipant 2 example_activity_AB) = Inr (Some (0, 1))"
proof -
  have counts: "current (capacity example_activity_AB) = count_status Registered example_activity_AB"
    "waitlist (capacity example_activity_AB) = count_status Waitlisted example_activity_AB"
    "current (capacity example_activity_left) = 1"
    "count_status Registered example_activity_left = 2"
    by (simp_all add: count_status_def example_activity_def example_activity_AB_def
        example_activity_left_def)
  have second: "map_sum id (map_option (\<lambda>a'. (waitlist (capacity a'), count_status Waitlisted a')))
     (removeParticipant 2 example_activity_AB) = Inr (Some (0, 1))"
    by (simp add: removeParticipant_def promote_waitlisted_def pull_def
        activity_save_def activity_pre_save_def capacity_valid_def Let_def count_status_def
        example_activity_def example_activity_AB_def)
  from scenario_C_steps counts second show ?thesis
    by blast
qed

end
